theory Spec2Isabelle
  imports Complex_Main "HOL-Library.Word"
begin

section \<open>The network core of SpockBot: spock/plugins/core/net.py\<close>

text \<open>
  A shallow embedding of the three classes of \<^verbatim>\<open>net.py\<close>: \<^verbatim>\<open>SelectSocket\<close>,
  \<^verbatim>\<open>NetCore\<close> and \<^verbatim>\<open>NetPlugin\<close>. Objects are records, methods are functions that
  take the state and return the new one, every exception is a value of \<open>exc\<close>.
  What the operating system answers (to \<^verbatim>\<open>connect\<close>, \<^verbatim>\<open>select\<close>, \<^verbatim>\<open>recv\<close>,
  \<^verbatim>\<open>send\<close>) is an argument of the function that asks. Output of \<^verbatim>\<open>print\<close> is not
  modelled.
\<close>

subsection \<open>Values shared with the modules that net.py imports\<close>

type_synonym bytes = "8 word list"

text \<open>
  Modelled from the spec: the constants of \<^verbatim>\<open>spock.mcp.mcdata\<close> (the four protocol
  states, the two compression states, the two directions and the table
  \<^verbatim>\<open>state_lookup\<close> of state names) are not among the sources; the spec gives
  \<open>protocolState \<in> {HANDSHAKE, STATUS, LOGIN, PLAY}\<close>, \<open>compressionState \<in> {OFF, ON}\<close>
  and the directions server to client and client to server.
\<close>

datatype proto_state = HANDSHAKE_STATE | STATUS_STATE | LOGIN_STATE | PLAY_STATE

datatype comp_state = PROTO_COMP_OFF | PROTO_COMP_ON

datatype direction = CLIENT_TO_SERVER | SERVER_TO_CLIENT

fun state_lookup :: "proto_state \<Rightarrow> string" where
  "state_lookup HANDSHAKE_STATE = ''HANDSHAKE''"
| "state_lookup STATUS_STATE = ''STATUS''"
| "state_lookup LOGIN_STATE = ''LOGIN''"
| "state_lookup PLAY_STATE = ''PLAY''"

text \<open>The exceptions that net.py names, raises or lets through.\<close>

datatype exc =
    BufferUnderflowException
  | socket_error string
  | select_error string
  | KeyError string
  | AttributeError string
  | OtherException string

text \<open>What a call into the operating system or into another module does: return or raise.\<close>

datatype 'a result = Returns 'a | Raises exc

text \<open>
  A packet, as far as net.py reads it: \<^verbatim>\<open>packet.ident\<close>, \<^verbatim>\<open>packet.str_ident\<close> and
  the dictionary \<^verbatim>\<open>packet.data\<close>, of which net.py reads the keys \<^verbatim>\<open>'next_state'\<close>,
  \<^verbatim>\<open>'threshold'\<close> and \<^verbatim>\<open>'reason'\<close>. A key that is not in the dictionary is
  \<open>None\<close> here, and reading it raises \<open>KeyError\<close>.
\<close>

record packet_data =
  next_state :: "proto_state option"
  threshold :: "int option"
  reason :: "string option"

record Packet =
  ident :: "proto_state \<times> direction \<times> nat"
  str_ident :: string
  data :: packet_data

subsection \<open>The receive buffer\<close>

text \<open>
  Modelled from the spec: \<^verbatim>\<open>utils.BoundBuffer\<close> is not among the sources. The spec
  describes it as an ordered byte sequence plus a single saved cursor: \<^verbatim>\<open>append\<close>
  extends the tail, \<^verbatim>\<open>save\<close> records the current read position (overwriting the
  previous checkpoint), \<^verbatim>\<open>revert\<close> resets the read position to the checkpoint, and
  decoding advances the read position as it consumes bytes.
\<close>

record BoundBuffer =
  buff :: bytes
  rpos :: nat
  backup :: nat

definition BoundBuffer_init :: BoundBuffer where
  "BoundBuffer_init = \<lparr>buff = [], rpos = 0, backup = 0\<rparr>"

definition bb_append :: "bytes \<Rightarrow> BoundBuffer \<Rightarrow> BoundBuffer" where
  "bb_append bs b = b\<lparr>buff := buff b @ bs\<rparr>"

definition bb_save :: "BoundBuffer \<Rightarrow> BoundBuffer" where
  "bb_save b = b\<lparr>backup := rpos b\<rparr>"

definition bb_revert :: "BoundBuffer \<Rightarrow> BoundBuffer" where
  "bb_revert b = b\<lparr>rpos := backup b\<rparr>"

definition bb_unread :: "BoundBuffer \<Rightarrow> bytes" where
  "bb_unread b = drop (rpos b) (buff b)"

definition bb_consume :: "nat \<Rightarrow> BoundBuffer \<Rightarrow> BoundBuffer" where
  "bb_consume n b = b\<lparr>rpos := min (rpos b + n) (length (buff b))\<rparr>"

text \<open>
  \<^verbatim>\<open>mcpacket.Packet.decode\<close> is not among the sources either; it is an argument of
  \<open>read_packet\<close>. It is called on a packet built from the identifier
  \<open>(proto_state, SERVER_TO_CLIENT)\<close>, with the compression state, and reads the
  receive buffer: it sees the unread bytes and either returns (a packet, or a value
  that Python takes for false) or raises, in both cases after reading some number of them.
\<close>

datatype decode_result = Decoded "Packet option" nat | DecodeRaises exc nat

type_synonym decoder = "proto_state \<times> direction \<Rightarrow> comp_state \<Rightarrow> bytes \<Rightarrow> decode_result"

subsection \<open>The event bus\<close>

text \<open>
  The plugin loader and the event plugin are outside net.py. \<^verbatim>\<open>event.emit\<close> is
  modelled by a log of what was emitted, in order, followed by the handlers that
  \<^verbatim>\<open>NetPlugin.__init__\<close> registers for that name, run at once (the spec's synchronous,
  in-process delivery); handlers of other plugins are not modelled.
  Modelled from the spec: \<^verbatim>\<open>event.kill()\<close> terminates the event loop, which is what
  the attribute \<^verbatim>\<open>event.kill_event\<close> that net.py reads records.
\<close>

datatype ev_name = Name string | Ident "proto_state \<times> direction \<times> nat"

datatype ev_data =
    NoData
  | PacketData Packet
  | TextData string
  | AddrData string int
  | ErrorData exc

record EventCore =
  emitted :: "(ev_name \<times> ev_data) list"
  kill_event :: bool

definition kill :: "EventCore \<Rightarrow> EventCore" where
  "kill ev = ev\<lparr>kill_event := True\<rparr>"

subsection \<open>class SelectSocket\<close>

text \<open>
  The socket handle is a number: \<open>sock_handle\<close> is the socket that \<^verbatim>\<open>self.sock\<close>
  refers to and \<open>blocking\<close> its blocking mode; \<^verbatim>\<open>reset\<close> closes it and allocates the
  next one. \<open>recv_of\<close> and \<open>send_of\<close> are the sockets whose bound methods
  \<^verbatim>\<open>self.recv\<close> and \<^verbatim>\<open>self.send\<close> were taken from in the constructor.
\<close>

record SelectSocket =
  sending :: bool
  sock_handle :: nat
  blocking :: bool
  recv_of :: nat
  send_of :: nat

definition SelectSocket_init :: "nat \<Rightarrow> SelectSocket" where
  "SelectSocket_init h =
     \<lparr>sending = False, sock_handle = h, blocking = False, recv_of = h, send_of = h\<rparr>"

text \<open>
  The arguments of \<^verbatim>\<open>select.select\<close>: three tuples of sockets and, when the timer has
  a deadline, a timeout. Its answer: three lists of ready sockets.
\<close>

type_synonym select_args = "nat list \<times> nat list \<times> nat list \<times> real option"

type_synonym select_ret = "nat list \<times> nat list \<times> nat list"

definition poll_slist :: "real \<Rightarrow> SelectSocket \<Rightarrow> select_args" where
  "poll_slist timeout s =
     (let (r, w, x) =
        (if sending s then ([sock_handle s], [sock_handle s], [sock_handle s])
         else ([sock_handle s], [], [sock_handle s]))
      in (r, w, x, if timeout \<ge> 0 then Some timeout else None))"

definition poll ::
  "(select_args \<Rightarrow> select_ret result) \<Rightarrow> real \<Rightarrow> SelectSocket \<Rightarrow> string list result \<times> SelectSocket"
where
  "poll select timeout s =
     (let slist = poll_slist timeout s;
          s1 = (if sending s then s\<lparr>sending := False\<rparr> else s)
      in case (case select slist of
                 Returns l \<Rightarrow> Returns l
               | Raises (select_error e) \<Rightarrow> Returns ([], [], [])
               | Raises e \<Rightarrow> Raises e) of
           Raises e \<Rightarrow> (Raises e, s1)
         | Returns (rlist, wlist, xlist) \<Rightarrow>
             (Returns ((if rlist \<noteq> [] then [''SOCKET_RECV''] else []) @
                       (if wlist \<noteq> [] then [''SOCKET_SEND''] else []) @
                       (if xlist \<noteq> [] then [''SOCKET_ERR''] else [])), s1))"

definition SelectSocket_reset :: "SelectSocket \<Rightarrow> SelectSocket" where
  "SelectSocket_reset s = s\<lparr>sock_handle := Suc (sock_handle s), blocking := False\<rparr>"

subsection \<open>class NetCore\<close>

text \<open>
  The attribute \<^verbatim>\<open>cipher\<close> does not exist until \<^verbatim>\<open>enable_crypto\<close> assigns it; an
  absent attribute and the value \<^verbatim>\<open>None\<close> are both \<open>None\<close> here. The cipher object
  of \<^verbatim>\<open>mccrypto\<close> is a value of the type parameter \<open>'c\<close>; its constructor and its
  \<^verbatim>\<open>encrypt\<close> and \<^verbatim>\<open>decrypt\<close> methods, which change the object, are arguments.
\<close>

record 'c NetCore =
  host :: "string option"
  port :: "int option"
  connected :: bool
  encrypted :: bool
  proto_state :: proto_state
  comp_state :: comp_state
  comp_threshold :: int
  sbuff :: bytes
  rbuff :: BoundBuffer
  cipher :: "'c option"

text \<open>
  \<^verbatim>\<open>NetCore.sock\<close>, \<^verbatim>\<open>NetPlugin.sock\<close> and the socket of the plugin are one object, and
  so are the two references to the event plugin: the state of the whole is one record
  with one \<open>SelectSocket\<close>, one \<open>NetCore\<close> and one \<open>EventCore\<close>, and the methods of
  \<^verbatim>\<open>NetCore\<close> work on it. \<open>plugin_sending\<close> is the attribute \<^verbatim>\<open>sending\<close> of the
  \<^verbatim>\<open>NetPlugin\<close> object (\<open>None\<close> while it does not exist).
\<close>

record 'c NetPlugin =
  bufsize :: nat
  sock_quit :: bool
  sock :: SelectSocket
  net :: "'c NetCore"
  event :: EventCore
  plugin_sending :: "bool option"

type_synonym 'c outcome = "exc option \<times> 'c NetPlugin"

definition emit :: "ev_name \<Rightarrow> ev_data \<Rightarrow> 'c NetPlugin \<Rightarrow> 'c NetPlugin" where
  "emit name d w = w\<lparr>event := (event w)\<lparr>emitted := emitted (event w) @ [(name, d)]\<rparr>\<rparr>"

text \<open>
  \<^verbatim>\<open>NetCore.__init__\<close> assigns every attribute but \<^verbatim>\<open>cipher\<close>; \<^verbatim>\<open>reset\<close> runs it
  again on the existing object.
\<close>

definition NetCore_assign :: "'c NetCore \<Rightarrow> 'c NetCore" where
  "NetCore_assign n =
     n\<lparr>host := None, port := None, connected := False, encrypted := False,
       proto_state := HANDSHAKE_STATE, comp_state := PROTO_COMP_OFF,
       comp_threshold := - 1, sbuff := [], rbuff := BoundBuffer_init\<rparr>"

definition NetCore_init :: "'c NetCore" where
  "NetCore_init =
     \<lparr>host = None, port = None, connected = False, encrypted = False,
      proto_state = HANDSHAKE_STATE, comp_state = PROTO_COMP_OFF,
      comp_threshold = - 1, sbuff = [], rbuff = BoundBuffer_init, cipher = None\<rparr>"

definition connect :: "unit result \<Rightarrow> string \<Rightarrow> int \<Rightarrow> 'c NetPlugin \<Rightarrow> 'c outcome" where
  "connect os_connect h p w =
     (let w1 = w\<lparr>net := (net w)\<lparr>host := Some h, port := Some p\<rparr>\<rparr>;
          w2 = w1\<lparr>sock := (sock w1)\<lparr>blocking := True\<rparr>\<rparr>
      in case os_connect of
           Returns u \<Rightarrow>
             (let w3 = w2\<lparr>sock := (sock w2)\<lparr>blocking := False\<rparr>\<rparr>;
                  w4 = w3\<lparr>net := (net w3)\<lparr>connected := True\<rparr>\<rparr>
              in (None, emit (Name ''connect'') (AddrData h p) w4))
         | Raises (socket_error e) \<Rightarrow> (None, w2)
         | Raises e \<Rightarrow> (Some e, w2))"

definition set_proto_state :: "proto_state \<Rightarrow> 'c NetPlugin \<Rightarrow> 'c NetPlugin" where
  "set_proto_state st w =
     emit (Name (state_lookup st @ ''_STATE'')) NoData (w\<lparr>net := (net w)\<lparr>proto_state := st\<rparr>\<rparr>)"

definition set_comp_state :: "int \<Rightarrow> 'c NetPlugin \<Rightarrow> 'c NetPlugin" where
  "set_comp_state t w =
     (let w1 = w\<lparr>net := (net w)\<lparr>comp_threshold := t\<rparr>\<rparr>
      in if t \<ge> 0 then w1\<lparr>net := (net w1)\<lparr>comp_state := PROTO_COMP_ON\<rparr>\<rparr> else w1)"

definition enable_crypto :: "(bytes \<Rightarrow> 'c) \<Rightarrow> bytes \<Rightarrow> 'c NetPlugin \<Rightarrow> 'c NetPlugin" where
  "enable_crypto AESCipher secret_key w =
     w\<lparr>net := (net w)\<lparr>cipher := Some (AESCipher secret_key), encrypted := True\<rparr>\<rparr>"

definition disable_crypto :: "'c NetPlugin \<Rightarrow> 'c NetPlugin" where
  "disable_crypto w = w\<lparr>net := (net w)\<lparr>cipher := None, encrypted := False\<rparr>\<rparr>"

definition reset :: "'c NetPlugin \<Rightarrow> 'c NetPlugin" where
  "reset w =
     (let w1 = w\<lparr>net := (net w)\<lparr>connected := False\<rparr>\<rparr>;
          w2 = w1\<lparr>sock := SelectSocket_reset (sock w1)\<rparr>
      in w2\<lparr>net := NetCore_assign (net w2)\<rparr>)"

definition disconnect :: "'c NetPlugin \<Rightarrow> 'c NetPlugin" where
  "disconnect = reset"

subsection \<open>class NetPlugin: the handlers of the control packets\<close>

definition handle_handshake :: "string \<Rightarrow> Packet \<Rightarrow> 'c NetPlugin \<Rightarrow> 'c outcome" where
  "handle_handshake name packet w =
     (case next_state (data packet) of
        None \<Rightarrow> (Some (KeyError ''next_state''), w)
      | Some st \<Rightarrow> (None, set_proto_state st w))"

definition handle_login_success :: "string \<Rightarrow> Packet \<Rightarrow> 'c NetPlugin \<Rightarrow> 'c outcome" where
  "handle_login_success name packet w = (None, set_proto_state PLAY_STATE w)"

definition handle_comp :: "string \<Rightarrow> Packet \<Rightarrow> 'c NetPlugin \<Rightarrow> 'c outcome" where
  "handle_comp name packet w =
     (case threshold (data packet) of
        None \<Rightarrow> (Some (KeyError ''threshold''), w)
      | Some t \<Rightarrow> (None, set_comp_state t w))"

definition handle_disconnect :: "string \<Rightarrow> Packet \<Rightarrow> 'c NetPlugin \<Rightarrow> 'c outcome" where
  "handle_disconnect name packet w =
     (case reason (data packet) of
        None \<Rightarrow> (Some (KeyError ''reason''), w)
      | Some r \<Rightarrow> (None, emit (Name ''disconnect'') (TextData r) w))"

text \<open>
  \<^verbatim>\<open>event.emit(packet.str_ident, packet)\<close>: the event is logged and the handler that
  \<^verbatim>\<open>NetPlugin.__init__\<close> registered for a packet under that name runs. (The names of
  the socket events and of the tick are not names of packets.)
\<close>

definition emit_packet :: "string \<Rightarrow> Packet \<Rightarrow> 'c NetPlugin \<Rightarrow> 'c outcome" where
  "emit_packet name packet w =
     (let w1 = emit (Name name) (PacketData packet) w
      in if name = ''PLAY<Disconnect'' then handle_disconnect name packet w1
         else if name = ''HANDSHAKE>Handshake'' then handle_handshake name packet w1
         else if name = ''LOGIN<Login Success'' then handle_login_success name packet w1
         else if name = ''LOGIN<Set Compression'' then handle_comp name packet w1
         else if name = ''PLAY<Set Compression'' then handle_comp name packet w1
         else (None, w1))"

text \<open>
  The two emits that \<^verbatim>\<open>push\<close> and \<^verbatim>\<open>read_packet\<close> make for a packet: under its
  identifier (a tuple, for which \<^verbatim>\<open>NetPlugin\<close> registers nothing), then under its name.
\<close>

definition emit_both :: "Packet \<Rightarrow> 'c NetPlugin \<Rightarrow> 'c outcome" where
  "emit_both packet w =
     emit_packet (str_ident packet) packet (emit (Ident (ident packet)) (PacketData packet) w)"

subsection \<open>NetCore.push and NetCore.read_packet\<close>

definition push ::
  "(Packet \<Rightarrow> comp_state \<Rightarrow> int \<Rightarrow> bytes) \<Rightarrow> ('c \<Rightarrow> bytes \<Rightarrow> bytes \<times> 'c) \<Rightarrow> Packet \<Rightarrow>
   'c NetPlugin \<Rightarrow> 'c outcome"
where
  "push encode encrypt packet w =
     (let d = encode packet (comp_state (net w)) (comp_threshold (net w));
          r = (if encrypted (net w) then
                 (case cipher (net w) of
                    None \<Rightarrow> Raises (AttributeError ''encrypt'')
                  | Some c \<Rightarrow>
                      (let (ct, c') = encrypt c d
                       in Returns (w\<lparr>net := (net w)\<lparr>sbuff := sbuff (net w) @ ct,
                                                      cipher := Some c'\<rparr>\<rparr>)))
               else Returns (w\<lparr>net := (net w)\<lparr>sbuff := sbuff (net w) @ d\<rparr>\<rparr>))
      in case r of
           Raises e \<Rightarrow> (Some e, w)
         | Returns w1 \<Rightarrow>
             (case emit_both packet w1 of
                (Some e, w2) \<Rightarrow> (Some e, w2)
              | (None, w2) \<Rightarrow> (None, w2\<lparr>sock := (sock w2)\<lparr>sending := True\<rparr>\<rparr>)))"

text \<open>
  One pass through the body of the loop of \<^verbatim>\<open>read_packet\<close>: the checkpoint, the
  attempt to decode, and then either \<^verbatim>\<open>break\<close> after the revert, or an exception
  that leaves \<^verbatim>\<open>read_packet\<close>, or the two emits and the next pass.
\<close>

datatype 'c attempt =
    Break "'c NetPlugin"
  | Propagate exc "'c NetPlugin"
  | Again "'c NetPlugin"

definition read_attempt :: "decoder \<Rightarrow> 'c NetPlugin \<Rightarrow> 'c attempt" where
  "read_attempt decode w =
     (let w1 = w\<lparr>net := (net w)\<lparr>rbuff := bb_save (rbuff (net w))\<rparr>\<rparr>
      in case decode (proto_state (net w1), SERVER_TO_CLIENT) (comp_state (net w1))
                (bb_unread (rbuff (net w1))) of
           DecodeRaises e n \<Rightarrow>
             (let w2 = w1\<lparr>net := (net w1)\<lparr>rbuff := bb_consume n (rbuff (net w1))\<rparr>\<rparr>
              in if e = BufferUnderflowException
                 then Break (w2\<lparr>net := (net w2)\<lparr>rbuff := bb_revert (rbuff (net w2))\<rparr>\<rparr>)
                 else Propagate e w2)
         | Decoded p n \<Rightarrow>
             (let w2 = w1\<lparr>net := (net w1)\<lparr>rbuff := bb_consume n (rbuff (net w1))\<rparr>\<rparr>
              in case p of
                   None \<Rightarrow> Again w2
                 | Some packet \<Rightarrow>
                     (case emit_both packet w2 of
                        (Some e, w3) \<Rightarrow> Propagate e w3
                      | (None, w3) \<Rightarrow> Again w3)))"

text \<open>
  The loop \<^verbatim>\<open>while True\<close>. It ends only by an exception, so it need not end:
  \<open>None\<close> is the loop that runs forever. \<open>Some (None, w)\<close> is the return after
  \<^verbatim>\<open>break\<close>, \<open>Some (Some e, w)\<close> the exception \<open>e\<close> leaving \<^verbatim>\<open>read_packet\<close>.
\<close>

partial_function (option) read_loop :: "decoder \<Rightarrow> 'c NetPlugin \<Rightarrow> 'c outcome option" where
  "read_loop decode w =
     (case read_attempt decode w of
        Break w' \<Rightarrow> Some (None, w')
      | Propagate e w' \<Rightarrow> Some (Some e, w')
      | Again w' \<Rightarrow> read_loop decode w')"

definition read_packet ::
  "decoder \<Rightarrow> ('c \<Rightarrow> bytes \<Rightarrow> bytes \<times> 'c) \<Rightarrow> bytes \<Rightarrow> 'c NetPlugin \<Rightarrow> 'c outcome option"
where
  "read_packet decode decrypt d w =
     (if encrypted (net w) then
        (case cipher (net w) of
           None \<Rightarrow> Some (Some (AttributeError ''decrypt''), w)
         | Some c \<Rightarrow>
             (let (plain, c') = decrypt c d
              in read_loop decode
                   (w\<lparr>net := (net w)\<lparr>cipher := Some c',
                                       rbuff := bb_append plain (rbuff (net w))\<rparr>\<rparr>)))
      else read_loop decode (w\<lparr>net := (net w)\<lparr>rbuff := bb_append d (rbuff (net w))\<rparr>\<rparr>))"

subsection \<open>class NetPlugin: the handlers of the socket events\<close>

definition handleERR :: "string \<Rightarrow> ev_data \<Rightarrow> 'c NetPlugin \<Rightarrow> 'c NetPlugin" where
  "handleERR name d w =
     (let w1 = reset w;
          w2 = emit (Name ''disconnect'') d w1
      in if sock_quit w2 \<and> \<not> kill_event (event w2) then w2\<lparr>event := kill (event w2)\<rparr> else w2)"

definition handleHUP :: "string \<Rightarrow> ev_data \<Rightarrow> 'c NetPlugin \<Rightarrow> 'c NetPlugin" where
  "handleHUP name d w =
     (let w1 = reset w;
          w2 = emit (Name ''disconnect'') (TextData ''Socket Hung Up'') w1
      in if sock_quit w2 \<and> \<not> kill_event (event w2) then w2\<lparr>event := kill (event w2)\<rparr> else w2)"

text \<open>
  \<^verbatim>\<open>event.emit('SOCKET_ERR', error)\<close> and \<^verbatim>\<open>event.emit('SOCKET_HUP')\<close>: the log,
  then the registered handler.
\<close>

definition emit_SOCKET_ERR :: "exc \<Rightarrow> 'c NetPlugin \<Rightarrow> 'c NetPlugin" where
  "emit_SOCKET_ERR error w =
     handleERR ''SOCKET_ERR'' (ErrorData error) (emit (Name ''SOCKET_ERR'') (ErrorData error) w)"

definition emit_SOCKET_HUP :: "'c NetPlugin \<Rightarrow> 'c NetPlugin" where
  "emit_SOCKET_HUP w = handleHUP ''SOCKET_HUP'' NoData (emit (Name ''SOCKET_HUP'') NoData w)"

text \<open>The clause \<^verbatim>\<open>except socket.error as error\<close> of \<^verbatim>\<open>handleRECV\<close> and \<^verbatim>\<open>handleSEND\<close>.\<close>

fun except_socket_error :: "'c outcome \<Rightarrow> 'c outcome" where
  "except_socket_error (Some (socket_error e), w) = (None, emit_SOCKET_ERR (socket_error e) w)"
| "except_socket_error (r, w) = (r, w)"

definition handleRECV ::
  "decoder \<Rightarrow> ('c \<Rightarrow> bytes \<Rightarrow> bytes \<times> 'c) \<Rightarrow> (nat \<Rightarrow> bytes result) \<Rightarrow> string \<Rightarrow> ev_data \<Rightarrow>
   'c NetPlugin \<Rightarrow> 'c outcome option"
where
  "handleRECV decode decrypt recv name d w =
     (if connected (net w) then
        (case recv (bufsize w) of
           Raises e \<Rightarrow> Some (except_socket_error (Some e, w))
         | Returns bs \<Rightarrow>
             if bs = [] then Some (None, emit_SOCKET_HUP w)
             else map_option except_socket_error (read_packet decode decrypt bs w))
      else Some (None, w))"

definition handleSEND ::
  "(bytes \<Rightarrow> nat result) \<Rightarrow> string \<Rightarrow> ev_data \<Rightarrow> 'c NetPlugin \<Rightarrow> 'c outcome"
where
  "handleSEND send name d w =
     (if connected (net w) then
        (case send (sbuff (net w)) of
           Raises e \<Rightarrow> except_socket_error (Some e, w)
         | Returns sent \<Rightarrow>
             (let w1 = w\<lparr>net := (net w)\<lparr>sbuff := drop sent (sbuff (net w))\<rparr>\<rparr>
              in if sbuff (net w1) \<noteq> [] then (None, w1\<lparr>plugin_sending := Some True\<rparr>)
                 else (None, w1)))
      else (None, w))"

text \<open>The state that \<^verbatim>\<open>NetPlugin.__init__\<close> builds from the settings.\<close>

definition NetPlugin_init :: "nat \<Rightarrow> bool \<Rightarrow> 'c NetPlugin" where
  "NetPlugin_init bs sq =
     \<lparr>bufsize = bs, sock_quit = sq, sock = SelectSocket_init 0, net = NetCore_init,
      event = \<lparr>emitted = [], kill_event = False\<rparr>, plugin_sending = None\<rparr>"

declare read_loop.simps [code]

subsection \<open>Notions used to state the properties\<close>

text \<open>
  What a later call of \<^verbatim>\<open>read_packet\<close> adds to the state before its loop starts:
  the new bytes at the tail of the receive buffer, and the cipher as decrypting left it.
\<close>

definition feed :: "bytes \<Rightarrow> 'c option \<Rightarrow> 'c NetPlugin \<Rightarrow> 'c NetPlugin" where
  "feed x c w = w\<lparr>net := (net w)\<lparr>cipher := c, rbuff := bb_append x (rbuff (net w))\<rparr>\<rparr>"



text \<open>
  A run of compression announcements handled one after the other by \<open>handle_comp\<close>;
  an exception ends the run.
\<close>

primrec handle_comps :: "Packet list \<Rightarrow> 'c NetPlugin \<Rightarrow> 'c outcome" where
  "handle_comps [] w = (None, w)"
| "handle_comps (p # ps) w =
     (case handle_comp ''LOGIN<Set Compression'' p w of
        (Some e, w') \<Rightarrow> (Some e, w')
      | (None, w') \<Rightarrow> handle_comps ps w')"

subsection \<open>A decoder, a cipher and states for the examples\<close>

text \<open>
  A frame is a length byte and that many bytes of body; the first byte of the body is the
  packet number and the second, when there is one, the threshold. A length of zero is a
  malformed frame. The cipher subtracts a key that counts up with every byte.
\<close>

definition example_packet :: "proto_state \<times> direction \<Rightarrow> bytes \<Rightarrow> Packet" where
  "example_packet i body =
     (let n = unat (hd body);
          name = (if fst i = LOGIN_STATE \<and> n = 2 then ''LOGIN<Login Success''
                  else if fst i = LOGIN_STATE \<and> n = 3 then ''LOGIN<Set Compression''
                  else ''?'')
      in \<lparr>ident = (fst i, snd i, n), str_ident = name,
          data = \<lparr>next_state = None,
                   threshold = (if length body > 1 then Some (uint (body ! 1)) else None),
                   reason = None\<rparr>\<rparr>)"

definition example_decode :: decoder where
  "example_decode i c bs =
     (case bs of
        [] \<Rightarrow> DecodeRaises BufferUnderflowException 0
      | l # rest \<Rightarrow>
          if l = 0 then DecodeRaises (OtherException ''empty frame'') 1
          else if length rest < unat l then DecodeRaises BufferUnderflowException 1
          else Decoded (Some (example_packet i (take (unat l) rest))) (Suc (unat l)))"

fun example_decrypt :: "8 word \<Rightarrow> bytes \<Rightarrow> bytes \<times> 8 word" where
  "example_decrypt k [] = ([], k)"
| "example_decrypt k (b # bs) = (let (r, k') = example_decrypt (k + 1) bs in ((b - k) # r, k'))"

definition example_login :: "8 word NetPlugin" where
  "example_login = set_proto_state LOGIN_STATE (NetPlugin_init 4096 False)"

definition keep_alive :: Packet where
  "keep_alive =
     \<lparr>ident = (PLAY_STATE, CLIENT_TO_SERVER, 0), str_ident = ''PLAY>Keep Alive'',
      data = \<lparr>next_state = None, threshold = None, reason = None\<rparr>\<rparr>"

text \<open>
  A connected client with three bytes pushed, after the poll that reported the socket
  writable and the \<^verbatim>\<open>handleSEND\<close> in which the system accepted one byte.
\<close>

definition example_pushed :: "8 word NetPlugin" where
  "example_pushed =
     snd (push (\<lambda>p c t. [1, 2, 3]) (\<lambda>c b. (b, c)) keep_alive
            (snd (connect (Returns ()) ''localhost'' 25565 (NetPlugin_init 4096 False))))"

definition example_polled :: "string list result \<times> 8 word NetPlugin" where
  "example_polled =
     (let (flags, s) = poll (\<lambda>a. Returns ([], [0], [])) (- 1) (sock example_pushed)
      in (flags, example_pushed\<lparr>sock := s\<rparr>))"

definition example_sent :: "8 word NetPlugin" where
  "example_sent = snd (handleSEND (\<lambda>b. Returns 1) ''SOCKET_SEND'' NoData (snd example_polled))"

section \<open>Properties\<close>

subsection \<open>Lemmas about the loop of read\_packet\<close>

lemmas read_loop_induct = read_loop.raw_induct [rotated 1, consumes 1, case_names pass]


lemma emit_both_rbuff:
  "emit_both p w = (r, w') \<Longrightarrow> rbuff (net w') = rbuff (net w) \<and> cipher (net w') = cipher (net w)
     \<and> encrypted (net w') = encrypted (net w)"
  by (auto simp add: emit_both_def emit_packet_def emit_def handle_disconnect_def
      handle_handshake_def handle_login_success_def handle_comp_def set_proto_state_def
      set_comp_state_def Let_def split: option.splits if_splits)

lemma emit_both_no_underflow:
  "emit_both p w = (Some e, w') \<Longrightarrow> e \<noteq> BufferUnderflowException"
  by (auto simp add: emit_both_def emit_packet_def emit_def handle_disconnect_def
      handle_handshake_def handle_login_success_def handle_comp_def set_proto_state_def
      set_comp_state_def Let_def split: option.splits if_splits)

lemma read_attempt_Break_iff:
  "read_attempt decode w = Break w' \<longleftrightarrow>
     (\<exists>n. decode (proto_state (net w), SERVER_TO_CLIENT) (comp_state (net w))
             (bb_unread (rbuff (net w))) = DecodeRaises BufferUnderflowException n) \<and>
     w' = w\<lparr>net := (net w)\<lparr>rbuff := bb_save (rbuff (net w))\<rparr>\<rparr>"
  by (auto simp add: read_attempt_def Let_def bb_save_def bb_unread_def bb_consume_def
      bb_revert_def split: decode_result.splits option.splits prod.splits)

lemma read_attempt_Propagate:
  "decode (proto_state (net w), SERVER_TO_CLIENT) (comp_state (net w))
     (bb_unread (rbuff (net w))) = DecodeRaises e n \<Longrightarrow> e \<noteq> BufferUnderflowException \<Longrightarrow>
   read_attempt decode w =
     Propagate e (w\<lparr>net := (net w)\<lparr>rbuff := bb_consume n (bb_save (rbuff (net w)))\<rparr>\<rparr>)"
  by (simp add: read_attempt_def Let_def bb_save_def bb_unread_def)

lemma read_attempt_Propagate_no_underflow:
  "read_attempt decode w = Propagate e w' \<Longrightarrow> e \<noteq> BufferUnderflowException"
  by (auto simp add: read_attempt_def Let_def dest: emit_both_no_underflow
      split: decode_result.splits option.splits prod.splits if_splits)

lemma read_loop_Break:
  assumes "read_loop decode w = Some y"
  shows "(\<forall>w'. y = (None, w') \<longrightarrow>
           (\<exists>n. decode (proto_state (net w'), SERVER_TO_CLIENT) (comp_state (net w'))
              (bb_unread (rbuff (net w'))) = DecodeRaises BufferUnderflowException n) \<and>
           rpos (rbuff (net w')) = backup (rbuff (net w'))) \<and>
         (\<forall>e w'. y = (Some e, w') \<longrightarrow> e \<noteq> BufferUnderflowException)"
  using assms
proof (induction rule: read_loop_induct)
  case (pass loop decode w y)
  show ?case
  proof (cases "read_attempt decode w")
    case (Break w1)
    with pass(2) have y: "y = (None, w1)" by simp
    from Break have "w1 = w\<lparr>net := (net w)\<lparr>rbuff := bb_save (rbuff (net w))\<rparr>\<rparr>"
      and "\<exists>n. decode (proto_state (net w), SERVER_TO_CLIENT) (comp_state (net w))
             (bb_unread (rbuff (net w))) = DecodeRaises BufferUnderflowException n"
      by (simp_all add: read_attempt_Break_iff)
    then show ?thesis using y by (simp add: bb_save_def bb_unread_def)
  next
    case (Propagate e w1)
    with pass(2) have "y = (Some e, w1)" by simp
    then show ?thesis using read_attempt_Propagate_no_underflow [OF Propagate] by simp
  next
    case (Again w1)
    with pass(2) have "loop decode w1 = Some y" by simp
    then show ?thesis by (rule pass(1))
  qed
qed












lemma handleSEND_sock:
  "send (sbuff (net w)) = Returns k \<Longrightarrow>
   sock (snd (handleSEND send name d w)) = sock w \<and>
   sbuff (net (snd (handleSEND send name d w))) =
     (if connected (net w) then drop k (sbuff (net w)) else sbuff (net w))"
  by (simp add: handleSEND_def Let_def)

subsection \<open>What holds of the invariants\<close>

text \<open>
  The state after construction satisfies both invariants of the connection, a threshold
  that is not negative switches compression on, \<^verbatim>\<open>enable_crypto\<close> and
  \<^verbatim>\<open>disable_crypto\<close> set cipher and flag together, and \<^verbatim>\<open>read_packet\<close> keeps the
  read position of the buffer within its bytes.
\<close>

lemma NetPlugin_init_invariants:
  "comp_state (net (NetPlugin_init b q)) = PROTO_COMP_OFF \<and>
   comp_threshold (net (NetPlugin_init b q)) = - 1 \<and>
   cipher (net (NetPlugin_init b q)) = None \<and>
   \<not> encrypted (net (NetPlugin_init b q)) \<and>
   rpos (rbuff (net (NetPlugin_init b q))) \<le> length (buff (rbuff (net (NetPlugin_init b q))))"
  by (simp add: NetPlugin_init_def NetCore_init_def BoundBuffer_init_def)

lemma set_comp_state_nonneg:
  "0 \<le> t \<Longrightarrow> comp_state (net (set_comp_state t w)) = PROTO_COMP_ON \<and>
     comp_threshold (net (set_comp_state t w)) = t"
  by (simp add: set_comp_state_def Let_def)

lemma crypto_toggle:
  "cipher (net (enable_crypto AESCipher k w)) = Some (AESCipher k) \<and>
   encrypted (net (enable_crypto AESCipher k w)) \<and>
   cipher (net (disable_crypto w)) = None \<and> \<not> encrypted (net (disable_crypto w))"
  by (simp add: enable_crypto_def disable_crypto_def)

lemma read_attempt_rpos:
  assumes "rpos (rbuff (net w)) \<le> length (buff (rbuff (net w)))"
    and "read_attempt decode w = Break w' \<or> read_attempt decode w = Propagate e w' \<or>
         read_attempt decode w = Again w'"
  shows "rpos (rbuff (net w')) \<le> length (buff (rbuff (net w')))"
  using assms
  by (auto simp add: read_attempt_def Let_def bb_save_def bb_consume_def bb_revert_def
      dest!: emit_both_rbuff split: decode_result.splits option.splits prod.splits if_splits)

lemma read_loop_rpos:
  assumes "read_loop decode w = Some y"
  shows "rpos (rbuff (net w)) \<le> length (buff (rbuff (net w))) \<longrightarrow>
         rpos (rbuff (net (snd y))) \<le> length (buff (rbuff (net (snd y))))"
  using assms
proof (induction rule: read_loop_induct)
  case (pass loop decode w y)
  show ?case
  proof (cases "read_attempt decode w")
    case (Break w1)
    with pass(2) have "y = (None, w1)" by simp
    then show ?thesis using read_attempt_rpos [of w decode w1] Break by simp
  next
    case (Propagate e w1)
    with pass(2) have "y = (Some e, w1)" by simp
    then show ?thesis using read_attempt_rpos [of w decode w1 e] Propagate by simp
  next
    case (Again w1)
    with pass(2) have "loop decode w1 = Some y" by simp
    from pass(1) [OF this] read_attempt_rpos [of w decode w1] Again show ?thesis by simp
  qed
qed

lemma read_packet_rpos:
  assumes r: "read_packet decode decrypt d w = Some (r, w')"
    and ok: "rpos (rbuff (net w)) \<le> length (buff (rbuff (net w)))"
  shows "rpos (rbuff (net w')) \<le> length (buff (rbuff (net w')))"
proof -
  have fed: "rpos (rbuff (net (feed x c w))) \<le> length (buff (rbuff (net (feed x c w))))"
    for x c using ok by (simp add: feed_def bb_append_def)
  have f: "w\<lparr>net := (net w)\<lparr>rbuff := bb_append d (rbuff (net w))\<rparr>\<rparr> = feed d (cipher (net w)) w"
    by (simp add: feed_def)
  show ?thesis
  proof (cases "encrypted (net w)")
    case False
    with r have "read_loop decode (feed d (cipher (net w)) w) = Some (r, w')"
      by (simp add: read_packet_def f)
    from read_loop_rpos [OF this] fed show ?thesis by simp
  next
    case True
    show ?thesis
    proof (cases "cipher (net w)")
      case None
      with True r ok show ?thesis by (simp add: read_packet_def)
    next
      case (Some k)
      obtain x k' where "decrypt k d = (x, k')" by (cases "decrypt k d")
      with True Some r have "read_loop decode (feed x (Some k') w) = Some (r, w')"
        by (simp add: read_packet_def feed_def)
      from read_loop_rpos [OF this] fed show ?thesis by simp
    qed
  qed
qed

subsection \<open>The claims\<close>

text \<open>
  C1. In \<^verbatim>\<open>read_packet\<close> a failed attempt to decode is taken for a partial frame
  exactly when it failed by \<open>BufferUnderflowException\<close>: then the loop stops and the
  buffer is what it was at the checkpoint (same bytes, same read position). Any other
  exception of the decoder leaves \<^verbatim>\<open>read_packet\<close> as it is, with the buffer not
  reverted. A call that returns has stopped at a checkpoint where decoding underflows,
  and the exception that leaves a call is never the underflow.
\<close>

theorem read_packet_breaks_on_underflow_only:
  "(decode (proto_state (net w), SERVER_TO_CLIENT) (comp_state (net w))
      (bb_unread (rbuff (net w))) = DecodeRaises BufferUnderflowException n \<longrightarrow>
    read_loop decode w = Some (None, w\<lparr>net := (net w)\<lparr>rbuff := bb_save (rbuff (net w))\<rparr>\<rparr>)) \<and>
   (decode (proto_state (net w), SERVER_TO_CLIENT) (comp_state (net w))
      (bb_unread (rbuff (net w))) = DecodeRaises e n \<and> e \<noteq> BufferUnderflowException \<longrightarrow>
    read_loop decode w =
      Some (Some e, w\<lparr>net := (net w)\<lparr>rbuff := bb_consume n (bb_save (rbuff (net w)))\<rparr>\<rparr>)) \<and>
   (read_packet decode decrypt d w = Some (None, v) \<longrightarrow>
    (\<exists>k. decode (proto_state (net v), SERVER_TO_CLIENT) (comp_state (net v))
            (bb_unread (rbuff (net v))) = DecodeRaises BufferUnderflowException k) \<and>
    rpos (rbuff (net v)) = backup (rbuff (net v))) \<and>
   (read_packet decode decrypt d w = Some (Some e', v) \<longrightarrow> e' \<noteq> BufferUnderflowException)"
proof (intro conjI impI)
  assume "decode (proto_state (net w), SERVER_TO_CLIENT) (comp_state (net w))
      (bb_unread (rbuff (net w))) = DecodeRaises BufferUnderflowException n"
  then have "read_attempt decode w = Break (w\<lparr>net := (net w)\<lparr>rbuff := bb_save (rbuff (net w))\<rparr>\<rparr>)"
    by (auto simp add: read_attempt_Break_iff)
  then show "read_loop decode w = Some (None, w\<lparr>net := (net w)\<lparr>rbuff := bb_save (rbuff (net w))\<rparr>\<rparr>)"
    by (simp add: read_loop.simps [of decode w])
next
  assume "decode (proto_state (net w), SERVER_TO_CLIENT) (comp_state (net w))
      (bb_unread (rbuff (net w))) = DecodeRaises e n \<and> e \<noteq> BufferUnderflowException"
  then have "read_attempt decode w =
      Propagate e (w\<lparr>net := (net w)\<lparr>rbuff := bb_consume n (bb_save (rbuff (net w)))\<rparr>\<rparr>)"
    by (simp add: read_attempt_Propagate)
  then show "read_loop decode w =
      Some (Some e, w\<lparr>net := (net w)\<lparr>rbuff := bb_consume n (bb_save (rbuff (net w)))\<rparr>\<rparr>)"
    by (simp add: read_loop.simps [of decode w])
next
  assume r: "read_packet decode decrypt d w = Some (None, v)"
  then obtain u where "read_loop decode u = Some (None, v)"
    by (auto simp add: read_packet_def Let_def split: if_splits option.splits prod.splits)
  from read_loop_Break [OF this]
  show "\<exists>k. decode (proto_state (net v), SERVER_TO_CLIENT) (comp_state (net v))
            (bb_unread (rbuff (net v))) = DecodeRaises BufferUnderflowException k"
    and "rpos (rbuff (net v)) = backup (rbuff (net v))" by simp_all
next
  assume r: "read_packet decode decrypt d w = Some (Some e', v)"
  then have "(\<exists>u. read_loop decode u = Some (Some e', v)) \<or> e' = AttributeError ''decrypt''"
    by (auto simp add: read_packet_def Let_def split: if_splits option.splits prod.splits)
  then show "e' \<noteq> BufferUnderflowException"
  proof
    assume "\<exists>u. read_loop decode u = Some (Some e', v)"
    then obtain u where "read_loop decode u = Some (Some e', v)" ..
    from read_loop_Break [OF this] show ?thesis by simp
  next
    assume "e' = AttributeError ''decrypt''"
    then show ?thesis by simp
  qed
qed

theorem read_packet_breaks_on_underflow_only_witness:
  "read_loop example_decode example_login =
     Some (None, example_login\<lparr>net := (net example_login)
                    \<lparr>rbuff := bb_save (rbuff (net example_login))\<rparr>\<rparr>) \<and>
   read_packet example_decode example_decrypt [2, 3] example_login =
     Some (None, snd (the (read_packet example_decode example_decrypt [2, 3] example_login))) \<and>
   rpos (rbuff (net (snd (the (read_packet example_decode example_decrypt [2, 3] example_login)))))
     = backup (rbuff (net (snd (the (read_packet example_decode example_decrypt [2, 3]
                                        example_login))))) \<and>
   read_loop example_decode (feed [0] None example_login) =
     Some (Some (OtherException ''empty frame''),
           (feed [0] None example_login)\<lparr>net := (net (feed [0] None example_login))
              \<lparr>rbuff := bb_consume 1 (bb_save (rbuff (net (feed [0] None example_login))))\<rparr>\<rparr>)"
proof -
  let ?v = "snd (the (read_packet example_decode example_decrypt [2, 3] example_login))"
  let ?u = "feed [0] None example_login"
  have a: "example_decode (proto_state (net example_login), SERVER_TO_CLIENT)
             (comp_state (net example_login)) (bb_unread (rbuff (net example_login)))
           = DecodeRaises BufferUnderflowException 0"
    by code_simp
  have c: "read_packet example_decode example_decrypt [2, 3] example_login = Some (None, ?v)"
    by code_simp
  have b: "example_decode (proto_state (net ?u), SERVER_TO_CLIENT) (comp_state (net ?u))
             (bb_unread (rbuff (net ?u))) = DecodeRaises (OtherException ''empty frame'') 1"
    by code_simp
  from read_packet_breaks_on_underflow_only
         [of example_decode example_login 0 BufferUnderflowException example_decrypt
             "[2, 3]" ?v BufferUnderflowException] a c
       read_packet_breaks_on_underflow_only
         [of example_decode ?u 1 "OtherException ''empty frame''" example_decrypt
             "[]" ?u BufferUnderflowException] b
  show ?thesis by simp
qed

text \<open>
  C2. The claim is that \<open>comp_state\<close> is on exactly when \<open>comp_threshold\<close> is not
  negative, after every \<^verbatim>\<open>set_comp_state\<close>. The code never switches compression off:
  after a threshold of 64, the threshold -1 leaves \<open>comp_state\<close> on beside a negative
  threshold.
\<close>

theorem set_comp_state_negative_keeps_on:
  "comp_state (net (set_comp_state (- 1) (set_comp_state 64
       (NetPlugin_init 4096 False :: unit NetPlugin)))) = PROTO_COMP_ON \<and>
   comp_threshold (net (set_comp_state (- 1) (set_comp_state 64
       (NetPlugin_init 4096 False :: unit NetPlugin)))) = - 1 \<and>
   comp_state (net (NetPlugin_init 4096 False :: unit NetPlugin)) = PROTO_COMP_OFF \<and>
   comp_threshold (net (NetPlugin_init 4096 False :: unit NetPlugin)) = - 1"
  by (simp add: set_comp_state_def NetPlugin_init_def NetCore_init_def Let_def)

text \<open>
  C3. The claim is that a cipher is present exactly when \<open>encrypted\<close> holds, also after
  \<^verbatim>\<open>reset\<close>. \<^verbatim>\<open>reset\<close> runs \<^verbatim>\<open>__init__\<close> again, which clears \<open>encrypted\<close> and does
  not assign \<^verbatim>\<open>cipher\<close>: after \<^verbatim>\<open>enable_crypto\<close> and \<^verbatim>\<open>reset\<close> the cipher is still
  there, where \<^verbatim>\<open>disable_crypto\<close> removes it.
\<close>

theorem reset_keeps_cipher:
  "cipher (net (reset (enable_crypto AESCipher secret_key w))) = Some (AESCipher secret_key) \<and>
   \<not> encrypted (net (reset (enable_crypto AESCipher secret_key w))) \<and>
   cipher (net (disable_crypto (enable_crypto AESCipher secret_key w))) = None \<and>
   \<not> encrypted (net (disable_crypto (enable_crypto AESCipher secret_key w)))"
  by (simp add: reset_def enable_crypto_def disable_crypto_def NetCore_assign_def Let_def)

text \<open>
  C4. The claim is that \<^verbatim>\<open>handleSEND\<close> keeps the unsent remainder and that, while a
  remainder is left, the flag \<open>sending\<close> that \<^verbatim>\<open>poll\<close> consults is set.
  \<^verbatim>\<open>handleSEND\<close> sets an attribute \<open>sending\<close> of the plugin, not of the socket: after
  the poll that reported the socket writable and a send of one byte out of three, two
  bytes are left, the flag of the socket is off and the next \<^verbatim>\<open>select\<close> is not asked
  for writability.
\<close>

theorem handleSEND_remainder_not_rescheduled:
  "fst example_polled = Returns [''SOCKET_SEND''] \<and>
   connected (net (snd example_polled)) \<and>
   sbuff (net (snd example_polled)) = [1, 2, 3] \<and>
   sbuff (net example_sent) = [2, 3] \<and>
   \<not> sending (sock example_sent) \<and>
   plugin_sending example_sent = Some True \<and>
   poll_slist (- 1) (sock example_sent) = ([0], [], [0], None)"
  by (simp add: example_sent_def example_polled_def example_pushed_def handleSEND_def
      poll_def poll_slist_def push_def connect_def emit_both_def emit_packet_def emit_def
      keep_alive_def NetPlugin_init_def NetCore_init_def SelectSocket_init_def
      BoundBuffer_init_def Let_def)




text \<open>
  C6. From \<open>HANDSHAKE\<close>, handling a handshake packet whose next state is \<open>LOGIN\<close>
  gives the protocol state \<open>LOGIN\<close>; any run of compression announcements handled then
  changes the compression threshold and state only; and handling a login success then
  gives \<open>PLAY\<close>.
\<close>

theorem control_packets_transitions:
  assumes "proto_state (net w) = HANDSHAKE_STATE"
    and "next_state (data hs) = Some LOGIN_STATE"
    and "\<forall>c \<in> set comps. threshold (data c) \<noteq> None"
  shows "\<exists>w1 w2 w3.
           handle_handshake n1 hs w = (None, w1) \<and> proto_state (net w1) = LOGIN_STATE \<and>
           handle_comps comps w1 = (None, w2) \<and>
           w2 = w1\<lparr>net := (net w1)\<lparr>comp_state := comp_state (net w2),
                                     comp_threshold := comp_threshold (net w2)\<rparr>\<rparr> \<and>
           handle_login_success n3 ls w2 = (None, w3) \<and> proto_state (net w3) = PLAY_STATE"
proof -
  have comps: "\<forall>c \<in> set ps. threshold (data c) \<noteq> None \<Longrightarrow>
      \<exists>v'. handle_comps ps v = (None, v') \<and>
        v' = v\<lparr>net := (net v)\<lparr>comp_state := comp_state (net v'),
                                comp_threshold := comp_threshold (net v')\<rparr>\<rparr>"
    for ps and v :: "'a NetPlugin"
  proof (induction ps arbitrary: v)
    case Nil
    show ?case by simp
  next
    case (Cons p ps)
    then obtain t where t: "threshold (data p) = Some t" by auto
    let ?v1 = "set_comp_state t v"
    from Cons obtain v' where v': "handle_comps ps ?v1 = (None, v')"
      "v' = ?v1\<lparr>net := (net ?v1)\<lparr>comp_state := comp_state (net v'),
                                comp_threshold := comp_threshold (net v')\<rparr>\<rparr>"
      by fastforce
    have "handle_comps (p # ps) v = (None, v')" using t v'(1) by (simp add: handle_comp_def)
    moreover have "v' = v\<lparr>net := (net v)\<lparr>comp_state := comp_state (net v'),
                                comp_threshold := comp_threshold (net v')\<rparr>\<rparr>"
      by (subst v'(2)) (simp add: set_comp_state_def Let_def)
    ultimately show ?case by blast
  qed
  let ?w1 = "set_proto_state LOGIN_STATE w"
  have 1: "handle_handshake n1 hs w = (None, ?w1)" "proto_state (net ?w1) = LOGIN_STATE"
    using assms(2) by (simp_all add: handle_handshake_def set_proto_state_def emit_def)
  from comps [OF assms(3), of ?w1] obtain w2 where 2: "handle_comps comps ?w1 = (None, w2)"
    "w2 = ?w1\<lparr>net := (net ?w1)\<lparr>comp_state := comp_state (net w2),
                                comp_threshold := comp_threshold (net w2)\<rparr>\<rparr>" by blast
  have 3: "handle_login_success n3 ls w2 = (None, set_proto_state PLAY_STATE w2)"
    "proto_state (net (set_proto_state PLAY_STATE w2)) = PLAY_STATE"
    by (simp_all add: handle_login_success_def set_proto_state_def emit_def)
  from 1 2 3 show ?thesis by blast
qed

theorem control_packets_transitions_witness:
  "handle_handshake ''HANDSHAKE>Handshake''
     (keep_alive\<lparr>data := \<lparr>next_state = Some LOGIN_STATE, threshold = None, reason = None\<rparr>\<rparr>)
     (NetPlugin_init 4096 False :: unit NetPlugin) \<noteq>
   (None, NetPlugin_init 4096 False) \<and>
   (\<exists>w1 w2 w3 :: unit NetPlugin.
      proto_state (net w1) = LOGIN_STATE \<and>
      handle_comps
        [keep_alive\<lparr>data := \<lparr>next_state = None, threshold = Some 64, reason = None\<rparr>\<rparr>] w1 =
        (None, w2) \<and>
      handle_login_success ''LOGIN<Login Success'' keep_alive w2 = (None, w3) \<and>
      proto_state (net w3) = PLAY_STATE)"
proof -
  let ?hs = "keep_alive\<lparr>data := \<lparr>next_state = Some LOGIN_STATE, threshold = None, reason = None\<rparr>\<rparr>"
  let ?c = "keep_alive\<lparr>data := \<lparr>next_state = None, threshold = Some 64, reason = None\<rparr>\<rparr>"
  have 1: "proto_state (net (NetPlugin_init 4096 False :: unit NetPlugin)) = HANDSHAKE_STATE"
    by (simp add: NetPlugin_init_def NetCore_init_def)
  have 2: "next_state (data ?hs) = Some LOGIN_STATE" by simp
  have 3: "\<forall>c \<in> set [?c]. threshold (data c) \<noteq> None" by simp
  have 4: "handle_handshake ''HANDSHAKE>Handshake'' ?hs (NetPlugin_init 4096 False :: unit NetPlugin)
           \<noteq> (None, NetPlugin_init 4096 False)"
    by (simp add: handle_handshake_def set_proto_state_def emit_def NetPlugin_init_def
        NetCore_init_def)
  from control_packets_transitions
         [OF 1 2 3, of "''HANDSHAKE>Handshake''" "''LOGIN<Login Success''" keep_alive] 4
  show ?thesis by blast
qed

text \<open>
  C7. The claim is that the socket is back in non-blocking mode when \<^verbatim>\<open>connect\<close>
  returns, whether the attempt succeeds or fails. The call that restores the mode is
  inside the \<^verbatim>\<open>try\<close> block, behind the attempt: when the attempt raises
  \<^verbatim>\<open>socket.error\<close>, \<^verbatim>\<open>connect\<close> returns with the socket in blocking mode (and with
  \<open>connected\<close> unchanged); when it succeeds the socket is non-blocking again.
\<close>

theorem connect_failure_leaves_blocking:
  "fst (connect (Raises (socket_error e)) h p w) = None \<and>
   blocking (sock (snd (connect (Raises (socket_error e)) h p w))) \<and>
   connected (net (snd (connect (Raises (socket_error e)) h p w))) = connected (net w) \<and>
   \<not> blocking (sock (NetPlugin_init 4096 False :: unit NetPlugin)) \<and>
   \<not> blocking (sock (snd (connect (Returns ()) h p w)))"
  by (simp add: connect_def emit_def NetPlugin_init_def SelectSocket_init_def Let_def)

text \<open>
  C8. \<^verbatim>\<open>handleHUP\<close> does what \<^verbatim>\<open>handleERR\<close> does with the cause "Socket Hung Up":
  both reset the connection, emit \<open>disconnect\<close> with the cause, and kill the event loop
  when \<open>sock_quit\<close> is set (so that afterwards the loop is dead when it was dead before
  or \<open>sock_quit\<close> is set). In \<^verbatim>\<open>handleRECV\<close> a read of no bytes emits
  \<open>SOCKET_HUP\<close>, which runs \<^verbatim>\<open>handleHUP\<close>, and a \<^verbatim>\<open>socket.error\<close> emits
  \<open>SOCKET_ERR\<close>, which runs \<^verbatim>\<open>handleERR\<close>.
\<close>

theorem hangup_and_error_same_effects:
  "handleHUP n d w = handleERR n' (TextData ''Socket Hung Up'') w \<and>
   handleERR n' cause w =
     (reset w)\<lparr>event := \<lparr>emitted = emitted (event w) @ [(Name ''disconnect'', cause)],
                          kill_event = (kill_event (event w) \<or> sock_quit w)\<rparr>\<rparr> \<and>
   (connected (net w) \<longrightarrow>
      handleRECV decode decrypt (\<lambda>k. Returns []) n d w =
        Some (None, handleHUP ''SOCKET_HUP'' NoData (emit (Name ''SOCKET_HUP'') NoData w)) \<and>
      handleRECV decode decrypt (\<lambda>k. Raises (socket_error e)) n d w =
        Some (None, handleERR ''SOCKET_ERR'' (ErrorData (socket_error e))
                      (emit (Name ''SOCKET_ERR'') (ErrorData (socket_error e)) w)))"
  by (auto simp add: handleHUP_def handleERR_def handleRECV_def emit_SOCKET_HUP_def
      emit_SOCKET_ERR_def reset_def emit_def kill_def Let_def)

theorem hangup_and_error_same_effects_witness:
  "connected (net (snd (connect (Returns ()) ''localhost'' 25565
      (NetPlugin_init 4096 True :: 8 word NetPlugin)))) \<and>
   handleRECV example_decode example_decrypt (\<lambda>k. Returns []) ''SOCKET_RECV'' NoData
     (snd (connect (Returns ()) ''localhost'' 25565 (NetPlugin_init 4096 True))) =
   Some (None, handleHUP ''SOCKET_HUP'' NoData (emit (Name ''SOCKET_HUP'') NoData
     (snd (connect (Returns ()) ''localhost'' 25565 (NetPlugin_init 4096 True))))) \<and>
   kill_event (event (handleHUP ''SOCKET_RECV'' NoData
     (snd (connect (Returns ()) ''localhost'' 25565
        (NetPlugin_init 4096 True :: 8 word NetPlugin)))))"
proof -
  let ?w = "snd (connect (Returns ()) ''localhost'' 25565
      (NetPlugin_init 4096 True :: 8 word NetPlugin))"
  have c: "connected (net ?w)" by (simp add: connect_def emit_def Let_def)
  have q: "sock_quit ?w" by (simp add: connect_def emit_def Let_def NetPlugin_init_def)
  from hangup_and_error_same_effects
         [where w = ?w and n = "''SOCKET_RECV''" and d = NoData and decode = example_decode
            and decrypt = example_decrypt and e = "''refused''" and n' = "''SOCKET_ERR''"
            and cause = "TextData ''Socket Hung Up''"] c q
  show ?thesis by simp
qed

text \<open>
  C9. When \<^verbatim>\<open>select.select\<close> raises \<^verbatim>\<open>select.error\<close>, \<^verbatim>\<open>poll\<close> returns the empty
  list of flags: nothing is ready, and no exception leaves \<^verbatim>\<open>poll\<close>.
\<close>

theorem poll_select_error_nothing_ready:
  "select (poll_slist timeout s) = Raises (select_error e) \<Longrightarrow>
   fst (poll select timeout s) = Returns []"
  by (simp add: poll_def Let_def)

theorem poll_select_error_nothing_ready_witness:
  "fst (poll (\<lambda>a. Raises (select_error ''EINTR'')) 0.5 (SelectSocket_init 0)) = Returns []"
  using poll_select_error_nothing_ready
          [of "\<lambda>a. Raises (select_error ''EINTR'')" "0.5" "SelectSocket_init 0" "''EINTR''"]
  by simp

text \<open>
  C10. \<^verbatim>\<open>connect\<close> assigns \<open>host\<close> and \<open>port\<close> before the attempt: whatever the attempt
  does, they hold the arguments afterwards, and when the attempt raises, \<open>connected\<close> is
  what it was.
\<close>

theorem connect_overwrites_host_port:
  "host (net (snd (connect os_connect h p w))) = Some h \<and>
   port (net (snd (connect os_connect h p w))) = Some p \<and>
   (os_connect = Raises e \<longrightarrow>
      connected (net (snd (connect os_connect h p w))) = connected (net w))"
  by (simp add: connect_def emit_def Let_def split: result.splits exc.splits)

theorem connect_overwrites_host_port_witness:
  "host (net (snd (connect (Raises (socket_error ''refused'')) ''example.org'' 25565
      (NetPlugin_init 4096 False :: unit NetPlugin)))) = Some ''example.org'' \<and>
   port (net (snd (connect (Raises (socket_error ''refused'')) ''example.org'' 25565
      (NetPlugin_init 4096 False :: unit NetPlugin)))) = Some 25565 \<and>
   host (net (NetPlugin_init 4096 False :: unit NetPlugin)) = None \<and>
   \<not> connected (net (snd (connect (Raises (socket_error ''refused'')) ''example.org'' 25565
      (NetPlugin_init 4096 False :: unit NetPlugin))))"
  using connect_overwrites_host_port
          [of "Raises (socket_error ''refused'')" "''example.org''" 25565
              "NetPlugin_init 4096 False :: unit NetPlugin" "socket_error ''refused''"]
  by (simp add: NetPlugin_init_def NetCore_init_def)

end
